theory Spec2Isabelle
  imports Main "HOL-Library.Word"
begin

section \<open>Values exchanged with the host runtime\<close>

text \<open>
  Both addons receive their arguments as a \<open>Napi::CallbackInfo\<close> (the list of the
  JavaScript arguments) and return a \<open>Napi::Value\<close>, or throw a JavaScript exception
  and return \<open>env.Null()\<close>. A call is modelled as a function from the argument list
  to \<open>js_exception + js_value\<close>, \<open>Inl\<close> being the way the call fails.

  \<open>TypeError\<close> and \<open>Error\<close> are the pending JavaScript exception.
  \<open>BufferOverrun n k\<close> is not an exception: it says that \<open>k\<close> bytes were written
  through the pointer of a vector of \<open>n < k\<close> bytes. From there on the behaviour of the
  program is undefined (the run may be killed when the heap is next used, or go on), so
  the model says nothing about what such a call returns.

  A JavaScript array built with \<open>Array::Set\<close> may have holes; it is a list of
  optional values, \<open>None\<close> being a hole.
\<close>

type_synonym byte = "8 word"
type_synonym bytes = "byte list"

datatype js_value =
    JNull
  | JBoolean bool
  | JNumber nat
  | JString string
  | JBuffer bytes
  | JArray "js_value option list"
  | JObject "(string \<times> js_value) list"

datatype js_exception = TypeError string | Error string | BufferOverrun nat nat

type_synonym js_result = "js_exception + js_value"

fun IsBuffer :: "js_value \<Rightarrow> bool" where
  "IsBuffer (JBuffer b) = True"
| "IsBuffer v = False"

text \<open>\<open>Data\<close> is the byte contents behind \<open>Buffer::Data()\<close>, \<open>Length\<close> is \<open>Buffer::Length()\<close>.\<close>

fun Data :: "js_value \<Rightarrow> bytes" where
  "Data (JBuffer b) = b"
| "Data v = []"

definition Length :: "js_value \<Rightarrow> nat" where
  "Length v = length (Data v)"

text \<open>Reading a property of a returned object (what the caller does with the result).\<close>

fun Get :: "js_value \<Rightarrow> string \<Rightarrow> js_value option" where
  "Get (JObject ps) k = map_of ps k"
| "Get v k = None"

text \<open>\<open>Array::Set(i, v)\<close>: stores at index \<open>i\<close>, growing the array with holes if needed.\<close>

definition Array_Set :: "js_value option list \<Rightarrow> nat \<Rightarrow> js_value \<Rightarrow> js_value option list" where
  "Array_Set arr i v =
     (if i < length arr then arr[i := Some v]
      else arr @ replicate (i - length arr) None @ [Some v])"

section \<open>Native buffers\<close>

text \<open>
  \<open>std::vector<uint8_t> v(n)\<close> is \<open>n\<close> zero bytes. A primitive that is handed
  \<open>v.data()\<close> writes its output through the pointer; the vector keeps the size it was
  allocated with whatever the primitive writes. \<open>v.resize(n)\<close> truncates or pads with
  zero bytes.

  In key generation and signing every vector is allocated with the size the code takes
  the primitive's output to have (the lengths of the algorithm object, or the constants
  of the Fixed Backend), and \<open>store\<close> is the vector after the write, at the size it
  was allocated with. In the Fixed Backend's verification the code itself allocates the
  vector shorter than the input it gives the primitive; there the write is checked
  against the size of the vector.
\<close>

definition vector :: "nat \<Rightarrow> bytes" where
  "vector n = replicate n 0"

definition store :: "bytes \<Rightarrow> bytes \<Rightarrow> bytes" where
  "store buf out = take (length buf) (out @ drop (length out) buf)"

definition resize :: "bytes \<Rightarrow> nat \<Rightarrow> bytes" where
  "resize v n = take n v @ replicate (n - length v) 0"

section \<open>The Registry Backend (liboqs_addon.cpp)\<close>

text \<open>
  liboqs itself is not part of the repository: the addon is modelled over a record of the
  library entry points it calls. \<open>'r\<close> is the state of the library's random number
  generator, consumed by key generation and signing. A primitive that writes through
  output pointers returns the bytes it wrote (and the length it reported). A pointer
  argument is the contents of the buffer it points to. \<open>OQS_KEM_new\<close> and
  \<open>OQS_SIG_new\<close> return \<open>None\<close> for the null pointer.

  Sizes are natural numbers (no buffer is long enough for \<open>size_t\<close> to wrap).
  Allocation is taken to succeed, so the \<open>catch (const std::exception&)\<close> branches
  have no counterpart. \<open>OQS_init()\<close>, called by the constructor, and
  \<open>OQS_KEM_free\<close>/\<open>OQS_SIG_free\<close> change nothing a later call reads.
\<close>

datatype OQS_STATUS = OQS_ERROR | OQS_SUCCESS | OQS_EXTERNAL_LIB_ERROR_OPENSSL

record OQS_KEM =
  kem_length_public_key :: nat
  kem_length_secret_key :: nat
  kem_length_ciphertext :: nat
  kem_length_shared_secret :: nat

record OQS_SIG =
  sig_length_public_key :: nat
  sig_length_secret_key :: nat
  sig_length_signature :: nat

record 'r liboqs =
  OQS_KEM_new :: "string \<Rightarrow> OQS_KEM option"
  OQS_KEM_keypair :: "OQS_KEM \<Rightarrow> 'r \<Rightarrow> (OQS_STATUS \<times> bytes \<times> bytes) \<times> 'r"
  OQS_SIG_new :: "string \<Rightarrow> OQS_SIG option"
  OQS_SIG_keypair :: "OQS_SIG \<Rightarrow> 'r \<Rightarrow> (OQS_STATUS \<times> bytes \<times> bytes) \<times> 'r"
  OQS_SIG_sign :: "OQS_SIG \<Rightarrow> bytes \<Rightarrow> bytes \<Rightarrow> 'r \<Rightarrow> (OQS_STATUS \<times> bytes \<times> nat) \<times> 'r"
  OQS_SIG_verify :: "OQS_SIG \<Rightarrow> bytes \<Rightarrow> bytes \<Rightarrow> bytes \<Rightarrow> OQS_STATUS"
  OQS_KEM_algs_length :: nat
  OQS_KEM_alg_identifier :: "nat \<Rightarrow> string option"
  OQS_SIG_algs_length :: nat
  OQS_SIG_alg_identifier :: "nat \<Rightarrow> string option"
  OQS_VERSION_TEXT :: string

definition OQS_KEM_alg_ml_kem_768 :: string where
  "OQS_KEM_alg_ml_kem_768 = ''ML-KEM-768''"

definition OQS_SIG_alg_ml_dsa_65 :: string where
  "OQS_SIG_alg_ml_dsa_65 = ''ML-DSA-65''"

definition GenerateKEMKeyPair ::
    "'r liboqs \<Rightarrow> js_value list \<Rightarrow> 'r \<Rightarrow> js_result \<times> 'r" where
  "GenerateKEMKeyPair lib info w =
     (case OQS_KEM_new lib OQS_KEM_alg_ml_kem_768 of
        None \<Rightarrow> (Inl (Error ''Failed to create ML-KEM-768 instance''), w)
      | Some kem \<Rightarrow>
          (case OQS_KEM_keypair lib kem w of
             ((status, pk_out, sk_out), w') \<Rightarrow>
               let public_key = store (vector (kem_length_public_key kem)) pk_out;
                   secret_key = store (vector (kem_length_secret_key kem)) sk_out
               in if status \<noteq> OQS_SUCCESS
                  then (Inl (Error ''Failed to generate ML-KEM-768 key pair''), w')
                  else (Inr (JObject
                         [(''publicKey'', JBuffer public_key),
                          (''secretKey'', JBuffer secret_key),
                          (''algorithm'', JString ''ML-KEM-768''),
                          (''publicKeyLength'', JNumber (kem_length_public_key kem)),
                          (''secretKeyLength'', JNumber (kem_length_secret_key kem)),
                          (''ciphertextLength'', JNumber (kem_length_ciphertext kem)),
                          (''sharedSecretLength'', JNumber (kem_length_shared_secret kem))]),
                        w')))"

definition GenerateSignatureKeyPair ::
    "'r liboqs \<Rightarrow> js_value list \<Rightarrow> 'r \<Rightarrow> js_result \<times> 'r" where
  "GenerateSignatureKeyPair lib info w =
     (case OQS_SIG_new lib OQS_SIG_alg_ml_dsa_65 of
        None \<Rightarrow> (Inl (Error ''Failed to create ML-DSA-65 instance''), w)
      | Some sg \<Rightarrow>
          (case OQS_SIG_keypair lib sg w of
             ((status, pk_out, sk_out), w') \<Rightarrow>
               let public_key = store (vector (sig_length_public_key sg)) pk_out;
                   secret_key = store (vector (sig_length_secret_key sg)) sk_out
               in if status \<noteq> OQS_SUCCESS
                  then (Inl (Error ''Failed to generate ML-DSA-65 key pair''), w')
                  else (Inr (JObject
                         [(''publicKey'', JBuffer public_key),
                          (''secretKey'', JBuffer secret_key),
                          (''algorithm'', JString ''ML-DSA-65''),
                          (''publicKeyLength'', JNumber (sig_length_public_key sg)),
                          (''secretKeyLength'', JNumber (sig_length_secret_key sg)),
                          (''maxSignatureLength'', JNumber (sig_length_signature sg))]),
                        w')))"

definition SignData ::
    "'r liboqs \<Rightarrow> js_value list \<Rightarrow> 'r \<Rightarrow> js_result \<times> 'r" where
  "SignData lib info w =
     (if length info < 2 \<or> \<not> IsBuffer (info ! 0) \<or> \<not> IsBuffer (info ! 1)
      then (Inl (TypeError ''Expected (data: Buffer, secretKey: Buffer)''), w)
      else
        let data_buffer = info ! 0; secret_key_buffer = info ! 1
        in case OQS_SIG_new lib OQS_SIG_alg_ml_dsa_65 of
             None \<Rightarrow> (Inl (Error ''Failed to create ML-DSA-65 instance''), w)
           | Some sg \<Rightarrow>
               (case OQS_SIG_sign lib sg (Data data_buffer) (Data secret_key_buffer) w of
                  ((status, sig_out, signature_length), w') \<Rightarrow>
                    let signature = store (vector (sig_length_signature sg)) sig_out
                    in if status \<noteq> OQS_SUCCESS
                       then (Inl (Error ''Failed to sign data with ML-DSA-65''), w')
                       else (Inr (JBuffer (resize signature signature_length)), w')))"

definition VerifySignature ::
    "'r liboqs \<Rightarrow> js_value list \<Rightarrow> 'r \<Rightarrow> js_result \<times> 'r" where
  "VerifySignature lib info w =
     (if length info < 3 \<or> \<not> IsBuffer (info ! 0) \<or> \<not> IsBuffer (info ! 1)
           \<or> \<not> IsBuffer (info ! 2)
      then (Inl (TypeError ''Expected (data: Buffer, signature: Buffer, publicKey: Buffer)''), w)
      else
        let data_buffer = info ! 0; signature_buffer = info ! 1;
            public_key_buffer = info ! 2
        in case OQS_SIG_new lib OQS_SIG_alg_ml_dsa_65 of
             None \<Rightarrow> (Inl (Error ''Failed to create ML-DSA-65 instance''), w)
           | Some sg \<Rightarrow>
               let status = OQS_SIG_verify lib sg (Data data_buffer)
                              (Data signature_buffer) (Data public_key_buffer)
               in (Inr (JBoolean (status = OQS_SUCCESS)), w))"

text \<open>
  The two loops of \<open>GetAvailableAlgorithms\<close>: \<open>for (i = 0; i < n; i++)\<close>, storing the
  identifier at index \<open>i\<close> when the library returns one.
\<close>

function algs_loop ::
    "(nat \<Rightarrow> string option) \<Rightarrow> nat \<Rightarrow> nat \<Rightarrow> js_value option list \<Rightarrow> js_value option list" where
  "algs_loop alg_identifier n i arr =
     (if i < n
      then algs_loop alg_identifier n (Suc i)
             (case alg_identifier i of
                None \<Rightarrow> arr
              | Some alg_name \<Rightarrow> Array_Set arr i (JString alg_name))
      else arr)"
  by pat_completeness auto
termination
  by (relation "measure (\<lambda>(f, n, i, arr). n - i)") auto

declare algs_loop.simps [simp del]

definition GetAvailableAlgorithms ::
    "'r liboqs \<Rightarrow> js_value list \<Rightarrow> 'r \<Rightarrow> js_result \<times> 'r" where
  "GetAvailableAlgorithms lib info w =
     (let kems = algs_loop (OQS_KEM_alg_identifier lib) (OQS_KEM_algs_length lib) 0 [];
          sigs = algs_loop (OQS_SIG_alg_identifier lib) (OQS_SIG_algs_length lib) 0 []
      in (Inr (JObject [(''kems'', JArray kems), (''signatures'', JArray sigs)]), w))"


definition KEMEncapsulate ::
    "'r liboqs \<Rightarrow> js_value list \<Rightarrow> 'r \<Rightarrow> js_result \<times> 'r" where
  "KEMEncapsulate lib info w = (Inl (Error ''KEMEncapsulate not yet implemented''), w)"

definition KEMDecapsulate ::
    "'r liboqs \<Rightarrow> js_value list \<Rightarrow> 'r \<Rightarrow> js_result \<times> 'r" where
  "KEMDecapsulate lib info w = (Inl (Error ''KEMDecapsulate not yet implemented''), w)"


section \<open>The Fixed Backend (liboqs_addon_direct.cpp)\<close>

text \<open>
  The PQClean functions are declared \<open>extern "C"\<close> and linked in; they are modelled as
  a record of functions like the library above. A C function returns its \<open>int\<close>
  result, the bytes it wrote through its output pointer(s) and the length it stored.
\<close>

definition MLKEM768_PUBLICKEYBYTES :: nat where "MLKEM768_PUBLICKEYBYTES = 1184"
definition MLKEM768_SECRETKEYBYTES :: nat where "MLKEM768_SECRETKEYBYTES = 2400"
definition MLKEM768_CIPHERTEXTBYTES :: nat where "MLKEM768_CIPHERTEXTBYTES = 1088"
definition MLKEM768_SHAREDSECRETBYTES :: nat where "MLKEM768_SHAREDSECRETBYTES = 32"

definition MLDSA65_PUBLICKEYBYTES :: nat where "MLDSA65_PUBLICKEYBYTES = 1952"
definition MLDSA65_SECRETKEYBYTES :: nat where "MLDSA65_SECRETKEYBYTES = 4000"
definition MLDSA65_SIGNATURE_BYTES :: nat where "MLDSA65_SIGNATURE_BYTES = 3309"

record 'r pqclean =
  PQCLEAN_MLKEM768_CLEAN_crypto_kem_keypair :: "'r \<Rightarrow> (int \<times> bytes \<times> bytes) \<times> 'r"
  PQCLEAN_MLKEM768_CLEAN_crypto_kem_enc :: "bytes \<Rightarrow> 'r \<Rightarrow> (int \<times> bytes \<times> bytes) \<times> 'r"
  PQCLEAN_MLKEM768_CLEAN_crypto_kem_dec :: "bytes \<Rightarrow> bytes \<Rightarrow> int \<times> bytes"
  PQCLEAN_MLDSA65_CLEAN_crypto_sign_keypair :: "'r \<Rightarrow> (int \<times> bytes \<times> bytes) \<times> 'r"
  PQCLEAN_MLDSA65_CLEAN_crypto_sign :: "bytes \<Rightarrow> bytes \<Rightarrow> 'r \<Rightarrow> (int \<times> bytes \<times> nat) \<times> 'r"
  PQCLEAN_MLDSA65_CLEAN_crypto_sign_open :: "bytes \<Rightarrow> bytes \<Rightarrow> int \<times> bytes \<times> nat"

definition Direct_GenerateKEMKeyPair ::
    "'r pqclean \<Rightarrow> js_value list \<Rightarrow> 'r \<Rightarrow> js_result \<times> 'r" where
  "Direct_GenerateKEMKeyPair p info w =
     (case PQCLEAN_MLKEM768_CLEAN_crypto_kem_keypair p w of
        ((result, pk_out, sk_out), w') \<Rightarrow>
          let public_key = store (vector MLKEM768_PUBLICKEYBYTES) pk_out;
              secret_key = store (vector MLKEM768_SECRETKEYBYTES) sk_out
          in if result \<noteq> 0
             then (Inl (Error ''Failed to generate ML-KEM-768 key pair''), w')
             else (Inr (JObject
                    [(''publicKey'', JBuffer public_key),
                     (''secretKey'', JBuffer secret_key),
                     (''algorithm'', JString ''ML-KEM-768''),
                     (''publicKeyLength'', JNumber MLKEM768_PUBLICKEYBYTES),
                     (''secretKeyLength'', JNumber MLKEM768_SECRETKEYBYTES),
                     (''ciphertextLength'', JNumber MLKEM768_CIPHERTEXTBYTES),
                     (''sharedSecretLength'', JNumber MLKEM768_SHAREDSECRETBYTES)]),
                   w'))"

definition Direct_GenerateSignatureKeyPair ::
    "'r pqclean \<Rightarrow> js_value list \<Rightarrow> 'r \<Rightarrow> js_result \<times> 'r" where
  "Direct_GenerateSignatureKeyPair p info w =
     (case PQCLEAN_MLDSA65_CLEAN_crypto_sign_keypair p w of
        ((result, pk_out, sk_out), w') \<Rightarrow>
          let public_key = store (vector MLDSA65_PUBLICKEYBYTES) pk_out;
              secret_key = store (vector MLDSA65_SECRETKEYBYTES) sk_out
          in if result \<noteq> 0
             then (Inl (Error ''Failed to generate ML-DSA-65 key pair''), w')
             else (Inr (JObject
                    [(''publicKey'', JBuffer public_key),
                     (''secretKey'', JBuffer secret_key),
                     (''algorithm'', JString ''ML-DSA-65''),
                     (''publicKeyLength'', JNumber MLDSA65_PUBLICKEYBYTES),
                     (''secretKeyLength'', JNumber MLDSA65_SECRETKEYBYTES),
                     (''maxSignatureLength'', JNumber MLDSA65_SIGNATURE_BYTES)]),
                   w'))"

text \<open>
  \<open>signed_message\<close> is allocated with \<open>data_buffer.Length() + MLDSA65_SIGNATURE_BYTES\<close>
  bytes; the length the primitive stores in \<open>signed_message_length\<close> is not read
  again. The returned buffer is the range
  \<open>[signed_message.begin(), signed_message.begin() + MLDSA65_SIGNATURE_BYTES)\<close>.
\<close>

definition Direct_SignData ::
    "'r pqclean \<Rightarrow> js_value list \<Rightarrow> 'r \<Rightarrow> js_result \<times> 'r" where
  "Direct_SignData p info w =
     (if length info < 2 \<or> \<not> IsBuffer (info ! 0) \<or> \<not> IsBuffer (info ! 1)
      then (Inl (TypeError ''Expected (data: Buffer, secretKey: Buffer)''), w)
      else
        let data_buffer = info ! 0; secret_key_buffer = info ! 1
        in case PQCLEAN_MLDSA65_CLEAN_crypto_sign p (Data data_buffer)
                  (Data secret_key_buffer) w of
             ((result, sm_out, signed_message_length), w') \<Rightarrow>
               let signed_message =
                     store (vector (Length data_buffer + MLDSA65_SIGNATURE_BYTES)) sm_out
               in if result \<noteq> 0
                  then (Inl (Error ''Failed to sign data with ML-DSA-65''), w')
                  else
                    let signature = take MLDSA65_SIGNATURE_BYTES signed_message
                    in (Inr (JBuffer signature), w'))"

text \<open>
  \<open>signed_message\<close> is the signature buffer followed by the data buffer, and the
  primitive is given all of it (\<open>signed_message.size()\<close>). \<open>recovered_message\<close>, the
  vector the primitive writes the message into, has \<open>data_buffer.Length()\<close> bytes.
  When the primitive writes more bytes than that, the write runs past the end of the
  vector. Otherwise the call returns whether the primitive's result is 0; the bytes and
  the length the primitive stored are not read.
\<close>

definition Direct_VerifySignature ::
    "'r pqclean \<Rightarrow> js_value list \<Rightarrow> 'r \<Rightarrow> js_result \<times> 'r" where
  "Direct_VerifySignature p info w =
     (if length info < 3 \<or> \<not> IsBuffer (info ! 0) \<or> \<not> IsBuffer (info ! 1)
           \<or> \<not> IsBuffer (info ! 2)
      then (Inl (TypeError ''Expected (data: Buffer, signature: Buffer, publicKey: Buffer)''), w)
      else
        let data_buffer = info ! 0; signature_buffer = info ! 1;
            public_key_buffer = info ! 2;
            signed_message = Data signature_buffer @ Data data_buffer;
            recovered_message = vector (Length data_buffer)
        in case PQCLEAN_MLDSA65_CLEAN_crypto_sign_open p signed_message
                  (Data public_key_buffer) of
             (result, m_out, recovered_message_length) \<Rightarrow>
               if length recovered_message < length m_out
               then (Inl (BufferOverrun (length recovered_message) (length m_out)), w)
               else (Inr (JBoolean (result = 0)), w))"

definition Direct_KEMEncapsulate ::
    "'r pqclean \<Rightarrow> js_value list \<Rightarrow> 'r \<Rightarrow> js_result \<times> 'r" where
  "Direct_KEMEncapsulate p info w = (Inl (Error ''KEMEncapsulate not yet implemented''), w)"

definition Direct_KEMDecapsulate ::
    "'r pqclean \<Rightarrow> js_value list \<Rightarrow> 'r \<Rightarrow> js_result \<times> 'r" where
  "Direct_KEMDecapsulate p info w = (Inl (Error ''KEMDecapsulate not yet implemented''), w)"



section \<open>Sequences of calls\<close>



section \<open>Reading results\<close>

text \<open>
  What a caller observes of a result: the length of a buffer-valued property of a returned
  object, and the set of strings stored in an array-valued property (holes and the order
  of the entries are not observed).
\<close>

definition property_length :: "js_value \<Rightarrow> string \<Rightarrow> nat option" where
  "property_length obj k =
     (case Get obj k of Some (JBuffer b) \<Rightarrow> Some (length b) | _ \<Rightarrow> None)"

definition array_names :: "js_value option list \<Rightarrow> string set" where
  "array_names arr = {n. Some (JString n) \<in> set arr}"

definition listed :: "js_value \<Rightarrow> string \<Rightarrow> string set" where
  "listed obj k = (case Get obj k of Some (JArray arr) \<Rightarrow> array_names arr | _ \<Rightarrow> {})"

section \<open>An instance of the primitives\<close>

text \<open>
  To run the addons on concrete inputs the primitives are instantiated with a small
  deterministic stand-in that has the interface and the buffer sizes of ML-KEM-768 and
  ML-DSA-65 and none of their mathematics: the generator state is a counter, a key is a
  run of one byte drawn from the counter, and the 3309-byte signature of a message under
  a key starts with the sum of the message bytes plus the key byte. The same stand-in
  backs both addons: \<open>crypto_sign\<close> writes the signature followed by the message, and
  \<open>crypto_sign_open\<close> takes the first 3309 bytes of its input as the signature and the
  rest as the message. Like the PQClean function it stands for, \<open>crypto_sign_open\<close>
  writes the message on success and, on failure, as many zero bytes as its input has.
\<close>

definition demo_key :: "bytes \<Rightarrow> byte" where
  "demo_key k = (case k of [] \<Rightarrow> 0 | b # _ \<Rightarrow> b)"

definition demo_signature :: "bytes \<Rightarrow> bytes \<Rightarrow> bytes" where
  "demo_signature m k = (sum_list m + demo_key k) # replicate 3308 0"

definition demo_KEM_new :: "string \<Rightarrow> OQS_KEM option" where
  "demo_KEM_new name =
     (if name = ''ML-KEM-512'' then
        Some \<lparr>kem_length_public_key = 800, kem_length_secret_key = 1632,
              kem_length_ciphertext = 768, kem_length_shared_secret = 32\<rparr>
      else if name = ''ML-KEM-768'' then
        Some \<lparr>kem_length_public_key = 1184, kem_length_secret_key = 2400,
              kem_length_ciphertext = 1088, kem_length_shared_secret = 32\<rparr>
      else if name = ''ML-KEM-1024'' then
        Some \<lparr>kem_length_public_key = 1568, kem_length_secret_key = 3168,
              kem_length_ciphertext = 1568, kem_length_shared_secret = 32\<rparr>
      else None)"

definition demo_SIG_new :: "string \<Rightarrow> OQS_SIG option" where
  "demo_SIG_new name =
     (if name = ''ML-DSA-44'' then
        Some \<lparr>sig_length_public_key = 1312, sig_length_secret_key = 2560,
              sig_length_signature = 2420\<rparr>
      else if name = ''ML-DSA-65'' then
        Some \<lparr>sig_length_public_key = 1952, sig_length_secret_key = 4000,
              sig_length_signature = 3309\<rparr>
      else None)"

definition demo_alg_identifier :: "string list \<Rightarrow> nat \<Rightarrow> string option" where
  "demo_alg_identifier names i = (if i < length names then Some (names ! i) else None)"

definition demo_liboqs :: "nat liboqs" where
  "demo_liboqs =
     \<lparr>OQS_KEM_new = demo_KEM_new,
      OQS_KEM_keypair = (\<lambda>kem w.
        ((OQS_SUCCESS, replicate (kem_length_public_key kem) (of_nat w),
          replicate (kem_length_secret_key kem) (of_nat w)), Suc w)),
      OQS_SIG_new = demo_SIG_new,
      OQS_SIG_keypair = (\<lambda>sg w.
        ((OQS_SUCCESS, replicate (sig_length_public_key sg) (of_nat w),
          replicate (sig_length_secret_key sg) (of_nat w)), Suc w)),
      OQS_SIG_sign = (\<lambda>sg m sk w. ((OQS_SUCCESS, demo_signature m sk, 3309), Suc w)),
      OQS_SIG_verify = (\<lambda>sg m s pk.
        if s = demo_signature m pk then OQS_SUCCESS else OQS_ERROR),
      OQS_KEM_algs_length = 3,
      OQS_KEM_alg_identifier = demo_alg_identifier [''ML-KEM-512'', ''ML-KEM-768'', ''ML-KEM-1024''],
      OQS_SIG_algs_length = 2,
      OQS_SIG_alg_identifier = demo_alg_identifier [''ML-DSA-44'', ''ML-DSA-65''],
      OQS_VERSION_TEXT = ''0.0.0-demo''\<rparr>"

definition demo_sign_open :: "bytes \<Rightarrow> bytes \<Rightarrow> int \<times> bytes \<times> nat" where
  "demo_sign_open sm pk =
     (if 3309 \<le> length sm \<and> take 3309 sm = demo_signature (drop 3309 sm) pk
      then (0, drop 3309 sm, length sm - 3309)
      else (- 1, replicate (length sm) 0, 2 ^ 64 - 1))"

definition demo_pqclean :: "nat pqclean" where
  "demo_pqclean =
     \<lparr>PQCLEAN_MLKEM768_CLEAN_crypto_kem_keypair = (\<lambda>w.
        ((0, replicate 1184 (of_nat w), replicate 2400 (of_nat w)), Suc w)),
      PQCLEAN_MLKEM768_CLEAN_crypto_kem_enc = (\<lambda>pk w.
        ((0, replicate 1088 (demo_key pk + of_nat w), replicate 32 (demo_key pk + of_nat w)),
         Suc w)),
      PQCLEAN_MLKEM768_CLEAN_crypto_kem_dec = (\<lambda>ct sk. (0, replicate 32 (demo_key ct))),
      PQCLEAN_MLDSA65_CLEAN_crypto_sign_keypair = (\<lambda>w.
        ((0, replicate 1952 (of_nat w), replicate 4000 (of_nat w)), Suc w)),
      PQCLEAN_MLDSA65_CLEAN_crypto_sign = (\<lambda>m sk w.
        ((0, demo_signature m sk @ m, 3309 + length m), Suc w)),
      PQCLEAN_MLDSA65_CLEAN_crypto_sign_open = demo_sign_open\<rparr>"

text \<open>The objects the stand-in produces from generator state 0.\<close>

definition demo_kem_keypair :: js_value where
  "demo_kem_keypair =
     JObject
       [(''publicKey'', JBuffer (replicate 1184 0)),
        (''secretKey'', JBuffer (replicate 2400 0)),
        (''algorithm'', JString ''ML-KEM-768''),
        (''publicKeyLength'', JNumber 1184),
        (''secretKeyLength'', JNumber 2400),
        (''ciphertextLength'', JNumber 1088),
        (''sharedSecretLength'', JNumber 32)]"

definition demo_sig_keypair :: js_value where
  "demo_sig_keypair =
     JObject
       [(''publicKey'', JBuffer (replicate 1952 0)),
        (''secretKey'', JBuffer (replicate 4000 0)),
        (''algorithm'', JString ''ML-DSA-65''),
        (''publicKeyLength'', JNumber 1952),
        (''secretKeyLength'', JNumber 4000),
        (''maxSignatureLength'', JNumber 3309)]"

definition demo_algorithms :: js_value where
  "demo_algorithms =
     JObject
       [(''kems'', JArray [Some (JString ''ML-KEM-512''), Some (JString ''ML-KEM-768''),
                          Some (JString ''ML-KEM-1024'')]),
        (''signatures'', JArray [Some (JString ''ML-DSA-44''), Some (JString ''ML-DSA-65'')])]"

section \<open>Buffer lemmas\<close>

lemma length_vector: "length (vector n) = n"
  by (simp add: vector_def)

lemma length_store: "length (store buf out) = length buf"
  by (simp add: store_def)

lemma length_resize: "length (resize v n) = n"
  by (simp add: resize_def)

lemma store_exact: "length out = length buf \<Longrightarrow> store buf out = out"
  by (simp add: store_def)

lemma length_demo_signature: "length (demo_signature m k) = 3309"
  by (simp add: demo_signature_def)

lemma demo_key_replicate: "demo_key (replicate n b) = (if n = 0 then 0 else b)"
  by (cases n) (simp_all add: demo_key_def)

section \<open>The operations on buffers\<close>

lemma VerifySignature_buffers:
  "VerifySignature lib [JBuffer d, JBuffer s, JBuffer pk] w =
     (case OQS_SIG_new lib OQS_SIG_alg_ml_dsa_65 of
        None \<Rightarrow> (Inl (Error ''Failed to create ML-DSA-65 instance''), w)
      | Some sg \<Rightarrow> (Inr (JBoolean (OQS_SIG_verify lib sg d s pk = OQS_SUCCESS)), w))"
  by (simp add: VerifySignature_def split: option.splits)

lemma Direct_VerifySignature_buffers:
  "Direct_VerifySignature p [JBuffer d, JBuffer s, JBuffer pk] w =
     (case PQCLEAN_MLDSA65_CLEAN_crypto_sign_open p (s @ d) pk of
        (result, m_out, n) \<Rightarrow>
          if length d < length m_out
          then (Inl (BufferOverrun (length d) (length m_out)), w)
          else (Inr (JBoolean (result = 0)), w))"
  by (simp add: Direct_VerifySignature_def Length_def length_vector split: prod.splits)





subsection \<open>The instance, evaluated\<close>

lemma demo_KEM_keygen:
  "GenerateKEMKeyPair demo_liboqs info 0 = (Inr demo_kem_keypair, 1)"
  by (simp add: GenerateKEMKeyPair_def demo_liboqs_def demo_KEM_new_def
      OQS_KEM_alg_ml_kem_768_def demo_kem_keypair_def store_exact vector_def)

lemma demo_Direct_KEM_keygen:
  "Direct_GenerateKEMKeyPair demo_pqclean info 0 = (Inr demo_kem_keypair, 1)"
  by (simp add: Direct_GenerateKEMKeyPair_def demo_pqclean_def demo_kem_keypair_def
      store_exact vector_def MLKEM768_PUBLICKEYBYTES_def MLKEM768_SECRETKEYBYTES_def
      MLKEM768_CIPHERTEXTBYTES_def MLKEM768_SHAREDSECRETBYTES_def)

lemma demo_SIG_new_65:
  "OQS_SIG_new demo_liboqs OQS_SIG_alg_ml_dsa_65 =
     Some \<lparr>sig_length_public_key = 1952, sig_length_secret_key = 4000,
           sig_length_signature = 3309\<rparr>"
  by (simp add: demo_liboqs_def demo_SIG_new_def OQS_SIG_alg_ml_dsa_65_def)

lemma demo_verify:
  "OQS_SIG_verify demo_liboqs sg m s pk =
     (if s = demo_signature m pk then OQS_SUCCESS else OQS_ERROR)"
  by (simp add: demo_liboqs_def)

lemma demo_open:
  "PQCLEAN_MLDSA65_CLEAN_crypto_sign_open demo_pqclean = demo_sign_open"
  by (simp add: demo_pqclean_def)

lemma demo_SIG_keygen:
  "GenerateSignatureKeyPair demo_liboqs info 0 = (Inr demo_sig_keypair, 1)"
  by (simp add: GenerateSignatureKeyPair_def demo_liboqs_def demo_SIG_new_def
      OQS_SIG_alg_ml_dsa_65_def demo_sig_keypair_def store_exact vector_def)

lemma demo_Direct_SIG_keygen:
  "Direct_GenerateSignatureKeyPair demo_pqclean info 0 = (Inr demo_sig_keypair, 1)"
  by (simp add: Direct_GenerateSignatureKeyPair_def demo_pqclean_def demo_sig_keypair_def
      store_exact vector_def MLDSA65_PUBLICKEYBYTES_def MLDSA65_SECRETKEYBYTES_def
      MLDSA65_SIGNATURE_BYTES_def)

lemma demo_KEM_new_768:
  "OQS_KEM_new demo_liboqs OQS_KEM_alg_ml_kem_768 =
     Some \<lparr>kem_length_public_key = 1184, kem_length_secret_key = 2400,
           kem_length_ciphertext = 1088, kem_length_shared_secret = 32\<rparr>"
  by (simp add: demo_liboqs_def demo_KEM_new_def OQS_KEM_alg_ml_kem_768_def)

lemma demo_signature_eq:
  "demo_signature m k = demo_signature m' k' \<longleftrightarrow> sum_list m + demo_key k = sum_list m' + demo_key k'"
  by (simp add: demo_signature_def)

lemma demo_sign_open_signed:
  "demo_sign_open (demo_signature m k @ m') pk =
     (if demo_signature m k = demo_signature m' pk then (0, m', length m')
      else (- 1, replicate (3309 + length m') 0, 2 ^ 64 - 1))"
  by (simp add: demo_sign_open_def length_demo_signature)



lemma demo_Direct_sign:
  "Direct_SignData demo_pqclean [JBuffer m, JBuffer sk] w = (Inr (JBuffer (demo_signature m sk)), Suc w)"
  by (simp add: Direct_SignData_def demo_pqclean_def Let_def Length_def store_exact
      length_vector length_demo_signature MLDSA65_SIGNATURE_BYTES_def)

lemma demo_OQS_sign:
  "OQS_SIG_sign demo_liboqs sg m sk w = ((OQS_SUCCESS, demo_signature m sk, 3309), Suc w)"
  by (simp add: demo_liboqs_def)

lemma demo_crypto_sign:
  "PQCLEAN_MLDSA65_CLEAN_crypto_sign demo_pqclean m sk w =
     ((0, demo_signature m sk @ m, 3309 + length m), Suc w)"
  by (simp add: demo_pqclean_def)

lemma demo_SignData:
  "SignData demo_liboqs [JBuffer m, JBuffer sk] w = (Inr (JBuffer (demo_signature m sk)), Suc w)"
  by (simp add: SignData_def demo_SIG_new_65 demo_OQS_sign Let_def store_exact length_vector
      length_demo_signature resize_def)

lemma demo_signature_not_Nil: "demo_signature m k \<noteq> []"
  by (simp add: demo_signature_def)

lemma length_butlast_demo_signature: "length (butlast (demo_signature m k)) = 3308"
  by (simp add: length_demo_signature)

lemma last_demo_signature: "last (demo_signature m k) = 0"
  by (simp add: demo_signature_def)

lemma butlast_demo_signature_append:
  "butlast (demo_signature m k) @ last (demo_signature m k) # d = demo_signature m k @ d"
proof -
  have "butlast (demo_signature m k) @ last (demo_signature m k) # d
          = (butlast (demo_signature m k) @ [last (demo_signature m k)]) @ d"
    by simp
  then show ?thesis
    by (simp only: append_butlast_last_id [OF demo_signature_not_Nil])
qed

lemma butlast_is_no_demo_signature: "butlast (demo_signature m k) \<noteq> demo_signature m' k'"
proof
  assume "butlast (demo_signature m k) = demo_signature m' k'"
  then have "length (butlast (demo_signature m k)) = length (demo_signature m' k')"
    by simp
  then show False
    by (simp add: length_demo_signature)
qed

lemma demo_GetAvailableAlgorithms:
  "GetAvailableAlgorithms demo_liboqs info w = (Inr demo_algorithms, w)"
  unfolding GetAvailableAlgorithms_def demo_algorithms_def demo_liboqs_def demo_alg_identifier_def
  by code_simp

lemma ex_less_3: "(\<exists>i<(3::nat). P i) \<longleftrightarrow> P 0 \<or> P 1 \<or> P 2"
proof -
  have "\<And>i::nat. i < 3 \<longleftrightarrow> i = 0 \<or> i = 1 \<or> i = 2"
    by arith
  then show ?thesis
    by metis
qed

lemma ex_less_2: "(\<exists>i<(2::nat). P i) \<longleftrightarrow> P 0 \<or> P 1"
proof -
  have "\<And>i::nat. i < 2 \<longleftrightarrow> i = 0 \<or> i = 1"
    by arith
  then show ?thesis
    by metis
qed

lemma demo_KEM_new_512:
  "OQS_KEM_new demo_liboqs ''ML-KEM-512'' =
     Some \<lparr>kem_length_public_key = 800, kem_length_secret_key = 1632,
           kem_length_ciphertext = 768, kem_length_shared_secret = 32\<rparr>"
  by (simp add: demo_liboqs_def demo_KEM_new_def)

subsection \<open>Signing\<close>

lemma SignData_success:
  assumes "fst (SignData lib info w) = Inr v"
  obtains sg where "OQS_SIG_new lib OQS_SIG_alg_ml_dsa_65 = Some sg"
    and "v = JBuffer (resize (store (vector (sig_length_signature sg))
               (fst (snd (fst (OQS_SIG_sign lib sg (Data (info ! 0)) (Data (info ! 1)) w)))))
               (snd (snd (fst (OQS_SIG_sign lib sg (Data (info ! 0)) (Data (info ! 1)) w)))))"
  using assms
  by (auto simp add: SignData_def Let_def split: if_splits option.splits prod.splits)

subsection \<open>The listing loop\<close>

lemma array_names_Array_Set:
  "length arr \<le> i \<Longrightarrow> array_names (Array_Set arr i (JString n)) = insert n (array_names arr)"
  by (auto simp add: Array_Set_def array_names_def)

lemma length_Array_Set: "length arr \<le> i \<Longrightarrow> length (Array_Set arr i v) = Suc i"
  by (simp add: Array_Set_def)

lemma algs_loop_names:
  "length arr \<le> i \<Longrightarrow>
     array_names (algs_loop f n i arr) = array_names arr \<union> {m. \<exists>j. i \<le> j \<and> j < n \<and> f j = Some m}"
proof (induction f n i arr rule: algs_loop.induct)
  case (1 f n i arr)
  show ?case
  proof (cases "i < n")
    case False
    then show ?thesis by (auto simp add: algs_loop.simps [of f n i arr])
  next
    case True
    let ?arr' = "case f i of None \<Rightarrow> arr | Some a \<Rightarrow> Array_Set arr i (JString a)"
    have len: "length ?arr' \<le> Suc i"
      using "1.prems" by (simp add: length_Array_Set split: option.splits)
    have names: "array_names ?arr' = array_names arr \<union> {m. f i = Some m}"
      using "1.prems" by (auto simp add: array_names_Array_Set split: option.splits)
    have split: "{m. \<exists>j. i \<le> j \<and> j < n \<and> f j = Some m}
                 = {m. f i = Some m} \<union> {m. \<exists>j. Suc i \<le> j \<and> j < n \<and> f j = Some m}"
    proof (rule set_eqI, rule iffI)
      fix m
      assume "m \<in> {m. \<exists>j. i \<le> j \<and> j < n \<and> f j = Some m}"
      then obtain j where j: "i \<le> j" "j < n" "f j = Some m"
        by auto
      show "m \<in> {m. f i = Some m} \<union> {m. \<exists>j. Suc i \<le> j \<and> j < n \<and> f j = Some m}"
      proof (cases "j = i")
        case True
        with j show ?thesis by simp
      next
        case False
        with j have "Suc i \<le> j" by simp
        with j show ?thesis by auto
      qed
    next
      fix m
      assume "m \<in> {m. f i = Some m} \<union> {m. \<exists>j. Suc i \<le> j \<and> j < n \<and> f j = Some m}"
      then consider "f i = Some m" | j where "Suc i \<le> j" "j < n" "f j = Some m"
        by auto
      then show "m \<in> {m. \<exists>j. i \<le> j \<and> j < n \<and> f j = Some m}"
      proof cases
        case 1
        with \<open>i < n\<close> show ?thesis by auto
      next
        case 2
        then show ?thesis by (auto intro!: exI [of _ j])
      qed
    qed
    have "array_names (algs_loop f n i arr) = array_names (algs_loop f n (Suc i) ?arr')"
      using True by (simp add: algs_loop.simps [of f n i arr])
    also have "\<dots> = array_names ?arr' \<union> {m. \<exists>j. Suc i \<le> j \<and> j < n \<and> f j = Some m}"
      using "1.IH" [OF True len] .
    finally show ?thesis
      using names split by auto
  qed
qed

lemma algs_loop_listed:
  "array_names (algs_loop f n 0 []) = {m. \<exists>i<n. f i = Some m}"
  using algs_loop_names [of "[]" 0 f n] by (simp add: array_names_def)

section \<open>Key encapsulation\<close>

text \<open>
  Claim C1, as the specification states it: for every generated ML-KEM-768 key pair,
  encapsulation with the public key succeeds, and decapsulation of its ciphertext with the
  secret key returns the same shared secret. It does not hold: in both addons
  \<open>KEMEncapsulate\<close> and \<open>KEMDecapsulate\<close> are stubs that throw. Below, key
  generation is run in both addons and encapsulation is called with the generated public
  key: it fails.
\<close>

theorem encapsulate_of_generated_key_fails:
  "fst (GenerateKEMKeyPair demo_liboqs [] 0) = Inr demo_kem_keypair
   \<and> fst (Direct_GenerateKEMKeyPair demo_pqclean [] 0) = Inr demo_kem_keypair
   \<and> Get demo_kem_keypair ''publicKey'' = Some (JBuffer (replicate 1184 0))
   \<and> fst (KEMEncapsulate demo_liboqs [JBuffer (replicate 1184 0)] 1)
       = Inl (Error ''KEMEncapsulate not yet implemented'')
   \<and> fst (Direct_KEMEncapsulate demo_pqclean [JBuffer (replicate 1184 0)] 1)
       = Inl (Error ''KEMEncapsulate not yet implemented'')"
  by (simp add: demo_KEM_keygen demo_Direct_KEM_keygen KEMEncapsulate_def
      Direct_KEMEncapsulate_def) (simp add: demo_kem_keypair_def)

text \<open>
  Claim C1, as the code has it: for every generated key pair, and for every other argument
  list, encapsulation fails with the error "KEMEncapsulate not yet implemented" and
  decapsulation with the error "KEMDecapsulate not yet implemented", in both addons. No
  ciphertext and no shared secret is returned, and the generator state is left untouched.
\<close>

theorem kem_operations_are_stubs:
  "KEMEncapsulate lib info w = (Inl (Error ''KEMEncapsulate not yet implemented''), w)
   \<and> KEMDecapsulate lib info w = (Inl (Error ''KEMDecapsulate not yet implemented''), w)
   \<and> Direct_KEMEncapsulate p info' w' = (Inl (Error ''KEMEncapsulate not yet implemented''), w')
   \<and> Direct_KEMDecapsulate p info' w' = (Inl (Error ''KEMDecapsulate not yet implemented''), w')"
  by (simp add: KEMEncapsulate_def KEMDecapsulate_def Direct_KEMEncapsulate_def
      Direct_KEMDecapsulate_def)

theorem kem_operations_are_stubs_witness:
  "KEMEncapsulate demo_liboqs [JBuffer (replicate 1184 0)] 1
     = (Inl (Error ''KEMEncapsulate not yet implemented''), 1)
   \<and> KEMDecapsulate demo_liboqs [JBuffer (replicate 2400 0), JBuffer (replicate 1088 0)] 1
     = (Inl (Error ''KEMDecapsulate not yet implemented''), 1)
   \<and> Direct_KEMEncapsulate demo_pqclean [JBuffer (replicate 1184 0)] 1
     = (Inl (Error ''KEMEncapsulate not yet implemented''), 1)
   \<and> Direct_KEMDecapsulate demo_pqclean [JBuffer (replicate 2400 0), JBuffer (replicate 1088 0)] 1
     = (Inl (Error ''KEMDecapsulate not yet implemented''), 1)"
  using kem_operations_are_stubs [of demo_liboqs "[JBuffer (replicate 1184 0)]" 1 demo_pqclean
          "[JBuffer (replicate 1184 0)]" 1]
        kem_operations_are_stubs [of demo_liboqs
          "[JBuffer (replicate 2400 0), JBuffer (replicate 1088 0)]" 1 demo_pqclean
          "[JBuffer (replicate 2400 0), JBuffer (replicate 1088 0)]" 1]
  by simp

section \<open>Input lengths\<close>

text \<open>
  Claim C2, as the specification states it: encapsulate, decapsulate and verify reject a
  key or ciphertext buffer of the wrong length with a length error, before the primitive
  runs. It does not hold: neither addon compares a buffer length with anything. Below,
  \<open>VerifySignature\<close> is called with an empty public key (the declared length is
  1952): both addons hand the buffers to the primitive and return a boolean.
\<close>

theorem verify_accepts_wrong_length_key:
  "fst (VerifySignature demo_liboqs [JBuffer [], JBuffer [], JBuffer []] 0) = Inr (JBoolean False)
   \<and> fst (Direct_VerifySignature demo_pqclean [JBuffer [], JBuffer [], JBuffer []] 0)
       = Inr (JBoolean False)"
  by (simp add: VerifySignature_buffers Direct_VerifySignature_buffers demo_SIG_new_65
      demo_verify demo_open demo_sign_open_def demo_signature_def)

text \<open>
  Claim C2, as the code has it, for encapsulation and decapsulation: whatever the lengths
  of the key and ciphertext buffers, the call fails before any primitive is called and
  reads no buffer; the error is "not yet implemented", not a length error. The result is
  the same for every library and every buffer. (Nothing is stated here of verification
  with a key of the wrong length.)
\<close>

theorem kem_stubs_read_no_buffer:
  "KEMEncapsulate lib [JBuffer pk] w = (Inl (Error ''KEMEncapsulate not yet implemented''), w)
   \<and> KEMDecapsulate lib [JBuffer sk, JBuffer ct] w
        = (Inl (Error ''KEMDecapsulate not yet implemented''), w)
   \<and> Direct_KEMEncapsulate p [JBuffer pk] w'
        = (Inl (Error ''KEMEncapsulate not yet implemented''), w')
   \<and> Direct_KEMDecapsulate p [JBuffer sk, JBuffer ct] w'
        = (Inl (Error ''KEMDecapsulate not yet implemented''), w')"
  by (simp add: KEMEncapsulate_def KEMDecapsulate_def Direct_KEMEncapsulate_def
      Direct_KEMDecapsulate_def)

theorem kem_stubs_read_no_buffer_witness:
  "length [1 :: byte] \<noteq> MLKEM768_PUBLICKEYBYTES
   \<and> length [2 :: byte] \<noteq> MLKEM768_SECRETKEYBYTES
   \<and> length [3 :: byte] \<noteq> MLKEM768_CIPHERTEXTBYTES
   \<and> KEMEncapsulate demo_liboqs [JBuffer [1]] 0
        = (Inl (Error ''KEMEncapsulate not yet implemented''), 0)
   \<and> KEMDecapsulate demo_liboqs [JBuffer [2], JBuffer [3]] 0
        = (Inl (Error ''KEMDecapsulate not yet implemented''), 0)
   \<and> Direct_KEMEncapsulate demo_pqclean [JBuffer [1]] 0
        = (Inl (Error ''KEMEncapsulate not yet implemented''), 0)
   \<and> Direct_KEMDecapsulate demo_pqclean [JBuffer [2], JBuffer [3]] 0
        = (Inl (Error ''KEMDecapsulate not yet implemented''), 0)"
  using kem_stubs_read_no_buffer [of demo_liboqs "[1]" 0 "[2]" "[3]" demo_pqclean 0]
  by (simp add: MLKEM768_PUBLICKEYBYTES_def MLKEM768_SECRETKEYBYTES_def
      MLKEM768_CIPHERTEXTBYTES_def)

section \<open>Verification\<close>



section \<open>Signing\<close>

text \<open>
  Claim C9. In the Fixed Backend every successful \<open>SignData\<close> call returns a buffer of
  exactly 3309 bytes, whatever the message length (the empty message included): the
  buffer is the first 3309 bytes of the signed-message buffer the primitive wrote into.
\<close>

theorem direct_signature_is_3309_bytes:
  assumes "fst (Direct_SignData p info w) = Inr v"
  shows "v = JBuffer (take MLDSA65_SIGNATURE_BYTES
                (store (vector (Length (info ! 0) + MLDSA65_SIGNATURE_BYTES))
                   (fst (snd (fst (PQCLEAN_MLDSA65_CLEAN_crypto_sign p
                      (Data (info ! 0)) (Data (info ! 1)) w))))))
       \<and> Length v = 3309"
  using assms
  by (auto simp add: Direct_SignData_def Let_def Length_def length_store length_vector
      MLDSA65_SIGNATURE_BYTES_def split: if_splits prod.splits)

theorem direct_signature_is_3309_bytes_witness:
  "fst (Direct_SignData demo_pqclean [JBuffer [], JBuffer (replicate 4000 7)] 0)
     = Inr (JBuffer (demo_signature [] (replicate 4000 7)))
   \<and> Length (JBuffer (demo_signature [] (replicate 4000 7))) = 3309
   \<and> fst (Direct_SignData demo_pqclean [JBuffer [1, 2], JBuffer (replicate 4000 7)] 0)
     = Inr (JBuffer (demo_signature [1, 2] (replicate 4000 7)))
   \<and> Length (JBuffer (demo_signature [1, 2] (replicate 4000 7))) = 3309"
proof -
  have a: "fst (Direct_SignData demo_pqclean [JBuffer [], JBuffer (replicate 4000 7)] 0)
     = Inr (JBuffer (demo_signature [] (replicate 4000 7)))"
    by (simp add: demo_Direct_sign)
  have b: "fst (Direct_SignData demo_pqclean [JBuffer [1, 2], JBuffer (replicate 4000 7)] 0)
     = Inr (JBuffer (demo_signature [1, 2] (replicate 4000 7)))"
    by (simp add: demo_Direct_sign)
  have "Length (JBuffer (demo_signature [] (replicate 4000 7))) = 3309"
    using direct_signature_is_3309_bytes [OF a] by (rule conjunct2)
  moreover have "Length (JBuffer (demo_signature [1, 2] (replicate 4000 7))) = 3309"
    using direct_signature_is_3309_bytes [OF b] by (rule conjunct2)
  ultimately show ?thesis
    using a b by blast
qed

text \<open>
  Claim C4. For every successful signing call the returned buffer has the signature
  length the primitive reported, and is not padded up to the maximum. In the Registry
  Backend the primitive stores the signature length and the buffer is resized to it: when
  the length is at most the maximum (what the library declares), the returned buffer is
  the first that many bytes of what the primitive wrote. In the Fixed Backend the
  primitive stores the length of the signed message, which for ML-DSA-65 is the message
  length plus 3309, every signature having 3309 bytes; the returned buffer then has the
  reported signature length, the stored length less the message length.
\<close>

theorem sign_returns_reported_length:
  "(fst (SignData lib info w) = Inr v \<longrightarrow>
      OQS_SIG_new lib OQS_SIG_alg_ml_dsa_65 = Some sg \<longrightarrow>
        Length v = snd (snd (fst (OQS_SIG_sign lib sg (Data (info ! 0)) (Data (info ! 1)) w)))
        \<and> (snd (snd (fst (OQS_SIG_sign lib sg (Data (info ! 0)) (Data (info ! 1)) w)))
              \<le> sig_length_signature sg \<longrightarrow>
            Data v =
              take (snd (snd (fst (OQS_SIG_sign lib sg (Data (info ! 0)) (Data (info ! 1)) w))))
                (store (vector (sig_length_signature sg))
                   (fst (snd (fst (OQS_SIG_sign lib sg (Data (info ! 0)) (Data (info ! 1)) w)))))))
   \<and> (fst (Direct_SignData p info w') = Inr v' \<longrightarrow>
        snd (snd (fst (PQCLEAN_MLDSA65_CLEAN_crypto_sign p (Data (info ! 0)) (Data (info ! 1)) w')))
          = Length (info ! 0) + MLDSA65_SIGNATURE_BYTES \<longrightarrow>
        Length v' =
          snd (snd (fst (PQCLEAN_MLDSA65_CLEAN_crypto_sign p (Data (info ! 0)) (Data (info ! 1)) w')))
            - Length (info ! 0)
        \<and> Length v' \<le> MLDSA65_SIGNATURE_BYTES)"
proof (intro conjI impI)
  assume ok: "fst (SignData lib info w) = Inr v"
    and new: "OQS_SIG_new lib OQS_SIG_alg_ml_dsa_65 = Some sg"
  from ok new
  show "Length v = snd (snd (fst (OQS_SIG_sign lib sg (Data (info ! 0)) (Data (info ! 1)) w)))"
    by (elim SignData_success) (simp add: Length_def length_resize)
  assume "snd (snd (fst (OQS_SIG_sign lib sg (Data (info ! 0)) (Data (info ! 1)) w)))
            \<le> sig_length_signature sg"
  with ok new
  show "Data v =
          take (snd (snd (fst (OQS_SIG_sign lib sg (Data (info ! 0)) (Data (info ! 1)) w))))
            (store (vector (sig_length_signature sg))
               (fst (snd (fst (OQS_SIG_sign lib sg (Data (info ! 0)) (Data (info ! 1)) w)))))"
    by (elim SignData_success) (simp add: resize_def length_store length_vector)
next
  assume ok: "fst (Direct_SignData p info w') = Inr v'"
    and rep: "snd (snd (fst (PQCLEAN_MLDSA65_CLEAN_crypto_sign p (Data (info ! 0))
                (Data (info ! 1)) w'))) = Length (info ! 0) + MLDSA65_SIGNATURE_BYTES"
  from ok have len: "Length v' = MLDSA65_SIGNATURE_BYTES"
    by (auto simp add: Direct_SignData_def Let_def Length_def length_store length_vector
        split: if_splits prod.splits)
  from len rep
  show "Length v' =
          snd (snd (fst (PQCLEAN_MLDSA65_CLEAN_crypto_sign p (Data (info ! 0)) (Data (info ! 1)) w')))
            - Length (info ! 0)"
    by simp
  from len show "Length v' \<le> MLDSA65_SIGNATURE_BYTES"
    by simp
qed

theorem sign_returns_reported_length_witness:
  "fst (SignData demo_liboqs [JBuffer [1, 2], JBuffer (replicate 4000 7)] 0)
     = Inr (JBuffer (demo_signature [1, 2] (replicate 4000 7)))
   \<and> snd (snd (fst (OQS_SIG_sign demo_liboqs
        \<lparr>sig_length_public_key = 1952, sig_length_secret_key = 4000, sig_length_signature = 3309\<rparr>
        [1, 2] (replicate 4000 7) 0))) = 3309
   \<and> fst (Direct_SignData demo_pqclean [JBuffer [1, 2], JBuffer (replicate 4000 7)] 0)
     = Inr (JBuffer (demo_signature [1, 2] (replicate 4000 7)))
   \<and> snd (snd (fst (PQCLEAN_MLDSA65_CLEAN_crypto_sign demo_pqclean [1, 2] (replicate 4000 7) 0)))
     = Length (JBuffer [1, 2]) + MLDSA65_SIGNATURE_BYTES
   \<and> Length (JBuffer (demo_signature [1, 2] (replicate 4000 7))) = 3309"
proof -
  let ?sg = "\<lparr>sig_length_public_key = 1952, sig_length_secret_key = 4000,
              sig_length_signature = 3309\<rparr>"
  let ?info = "[JBuffer [1, 2], JBuffer (replicate 4000 7)]"
  let ?v = "JBuffer (demo_signature [1, 2] (replicate 4000 7))"
  have a: "fst (SignData demo_liboqs ?info 0) = Inr ?v"
    by (simp add: demo_SignData)
  have b: "fst (Direct_SignData demo_pqclean ?info 0) = Inr ?v"
    by (simp add: demo_Direct_sign)
  have r: "snd (snd (fst (OQS_SIG_sign demo_liboqs ?sg [1, 2] (replicate 4000 7) 0))) = 3309"
    by (simp add: demo_OQS_sign)
  have q: "snd (snd (fst (PQCLEAN_MLDSA65_CLEAN_crypto_sign demo_pqclean [1, 2]
              (replicate 4000 7) 0))) = Length (JBuffer [1, 2]) + MLDSA65_SIGNATURE_BYTES"
    by (simp add: demo_crypto_sign Length_def MLDSA65_SIGNATURE_BYTES_def)
  note inst = sign_returns_reported_length [where lib = demo_liboqs and info = ?info
      and w = 0 and v = ?v and sg = ?sg and p = demo_pqclean and w' = 0 and v' = ?v]
  have "Length ?v
          = snd (snd (fst (OQS_SIG_sign demo_liboqs ?sg [1, 2] (replicate 4000 7) 0)))"
    using inst a demo_SIG_new_65 by simp
  then have "Length ?v = 3309"
    by (simp only: r)
  then show ?thesis
    using a b r q by blast
qed

section \<open>Key generation\<close>

text \<open>
  Claim C5. Every successful key generation returns a public key and a secret key whose
  lengths are the declared ones. In the Fixed Backend these are the constants 1184 and
  2400 for ML-KEM-768 and 1952 and 4000 for ML-DSA-65. In the Registry Backend they are
  the lengths declared by the algorithm object the library resolved.
\<close>

theorem generated_key_lengths:
  "(fst (Direct_GenerateKEMKeyPair p info w) = Inr kp \<longrightarrow>
      property_length kp ''publicKey'' = Some 1184 \<and> property_length kp ''secretKey'' = Some 2400)
   \<and> (fst (Direct_GenerateSignatureKeyPair p info w) = Inr kp \<longrightarrow>
      property_length kp ''publicKey'' = Some 1952 \<and> property_length kp ''secretKey'' = Some 4000)
   \<and> (fst (GenerateKEMKeyPair lib info w') = Inr kp \<longrightarrow>
        OQS_KEM_new lib OQS_KEM_alg_ml_kem_768 = Some kem \<longrightarrow>
          property_length kp ''publicKey'' = Some (kem_length_public_key kem)
          \<and> property_length kp ''secretKey'' = Some (kem_length_secret_key kem))
   \<and> (fst (GenerateSignatureKeyPair lib info w') = Inr kp \<longrightarrow>
        OQS_SIG_new lib OQS_SIG_alg_ml_dsa_65 = Some sg \<longrightarrow>
          property_length kp ''publicKey'' = Some (sig_length_public_key sg)
          \<and> property_length kp ''secretKey'' = Some (sig_length_secret_key sg))"
proof (intro conjI impI)
  assume "fst (Direct_GenerateKEMKeyPair p info w) = Inr kp"
  then show "property_length kp ''publicKey'' = Some 1184"
    and "property_length kp ''secretKey'' = Some 2400"
    by (auto simp add: Direct_GenerateKEMKeyPair_def Let_def property_length_def length_store
        length_vector MLKEM768_PUBLICKEYBYTES_def MLKEM768_SECRETKEYBYTES_def
        split: prod.splits if_splits)
next
  assume "fst (Direct_GenerateSignatureKeyPair p info w) = Inr kp"
  then show "property_length kp ''publicKey'' = Some 1952"
    and "property_length kp ''secretKey'' = Some 4000"
    by (auto simp add: Direct_GenerateSignatureKeyPair_def Let_def property_length_def
        length_store length_vector MLDSA65_PUBLICKEYBYTES_def MLDSA65_SECRETKEYBYTES_def
        split: prod.splits if_splits)
next
  assume "fst (GenerateKEMKeyPair lib info w') = Inr kp"
    and "OQS_KEM_new lib OQS_KEM_alg_ml_kem_768 = Some kem"
  then show "property_length kp ''publicKey'' = Some (kem_length_public_key kem)"
    and "property_length kp ''secretKey'' = Some (kem_length_secret_key kem)"
    by (auto simp add: GenerateKEMKeyPair_def Let_def property_length_def length_store
        length_vector split: prod.splits if_splits)
next
  assume "fst (GenerateSignatureKeyPair lib info w') = Inr kp"
    and "OQS_SIG_new lib OQS_SIG_alg_ml_dsa_65 = Some sg"
  then show "property_length kp ''publicKey'' = Some (sig_length_public_key sg)"
    and "property_length kp ''secretKey'' = Some (sig_length_secret_key sg)"
    by (auto simp add: GenerateSignatureKeyPair_def Let_def property_length_def length_store
        length_vector split: prod.splits if_splits)
qed


theorem generated_key_lengths_witness:
  "fst (Direct_GenerateKEMKeyPair demo_pqclean [] 0) = Inr demo_kem_keypair
   \<and> fst (GenerateKEMKeyPair demo_liboqs [] 0) = Inr demo_kem_keypair
   \<and> property_length demo_kem_keypair ''publicKey'' = Some 1184
   \<and> property_length demo_kem_keypair ''secretKey'' = Some 2400
   \<and> fst (Direct_GenerateSignatureKeyPair demo_pqclean [] 0) = Inr demo_sig_keypair
   \<and> fst (GenerateSignatureKeyPair demo_liboqs [] 0) = Inr demo_sig_keypair
   \<and> property_length demo_sig_keypair ''publicKey'' = Some 1952
   \<and> property_length demo_sig_keypair ''secretKey'' = Some 4000"
proof -
  let ?kem = "\<lparr>kem_length_public_key = 1184, kem_length_secret_key = 2400,
               kem_length_ciphertext = 1088, kem_length_shared_secret = 32\<rparr>"
  let ?sg = "\<lparr>sig_length_public_key = 1952, sig_length_secret_key = 4000,
              sig_length_signature = 3309\<rparr>"
  have a: "fst (Direct_GenerateKEMKeyPair demo_pqclean [] 0) = Inr demo_kem_keypair"
    by (simp add: demo_Direct_KEM_keygen)
  have b: "fst (Direct_GenerateSignatureKeyPair demo_pqclean [] 0) = Inr demo_sig_keypair"
    by (simp add: demo_Direct_SIG_keygen)
  have c: "fst (GenerateKEMKeyPair demo_liboqs [] 0) = Inr demo_kem_keypair"
    by (simp add: demo_KEM_keygen)
  have d: "fst (GenerateSignatureKeyPair demo_liboqs [] 0) = Inr demo_sig_keypair"
    by (simp add: demo_SIG_keygen)
  have "property_length demo_kem_keypair ''publicKey'' = Some 1184
        \<and> property_length demo_kem_keypair ''secretKey'' = Some 2400"
    using generated_key_lengths [where p = demo_pqclean and info = "[]" and w = 0
        and kp = demo_kem_keypair and lib = demo_liboqs and w' = 0 and kem = ?kem and sg = ?sg] a
    by blast
  moreover have "property_length demo_sig_keypair ''publicKey'' = Some 1952
        \<and> property_length demo_sig_keypair ''secretKey'' = Some 4000"
    using generated_key_lengths [where p = demo_pqclean and info = "[]" and w = 0
        and kp = demo_sig_keypair and lib = demo_liboqs and w' = 0 and kem = ?kem and sg = ?sg] b
    by blast
  ultimately show ?thesis
    using a b c d by blast
qed

section \<open>Listing the algorithms\<close>

text \<open>
  Claim C6, as the specification states it: in the Registry Backend the names listed by
  the capability query are exactly the algorithms key generation accepts. It does not
  hold: key generation takes no algorithm. Below, the algorithms of a library that also
  provides ML-KEM-512 are listed, and key generation is asked for ML-KEM-512: the pair
  returned is an ML-KEM-768 pair, with a public key of 1184 bytes.
\<close>

theorem listed_algorithm_not_generated:
  "fst (GetAvailableAlgorithms demo_liboqs [] 0) = Inr demo_algorithms
   \<and> Get demo_algorithms ''kems''
       = Some (JArray [Some (JString ''ML-KEM-512''), Some (JString ''ML-KEM-768''),
                       Some (JString ''ML-KEM-1024'')])
   \<and> OQS_KEM_new demo_liboqs ''ML-KEM-512'' =
        Some \<lparr>kem_length_public_key = 800, kem_length_secret_key = 1632,
              kem_length_ciphertext = 768, kem_length_shared_secret = 32\<rparr>
   \<and> fst (GenerateKEMKeyPair demo_liboqs [JString ''ML-KEM-512''] 0) = Inr demo_kem_keypair
   \<and> Get demo_kem_keypair ''algorithm'' = Some (JString ''ML-KEM-768'')
   \<and> property_length demo_kem_keypair ''publicKey'' = Some 1184"
  by (simp add: demo_GetAvailableAlgorithms demo_KEM_keygen demo_KEM_new_512)
     (simp add: demo_algorithms_def demo_kem_keypair_def property_length_def)

text \<open>
  Claim C6, as the code has it: key generation in the Registry Backend does not read its
  arguments; \<open>GenerateKEMKeyPair\<close> always produces a pair labelled ML-KEM-768 and
  \<open>GenerateSignatureKeyPair\<close> a pair labelled ML-DSA-65. The capability query lists
  exactly the identifiers the library reports at the indices below its algorithm count,
  whether or not key generation can produce them.
\<close>

theorem keygen_algorithm_is_fixed:
  "GenerateKEMKeyPair lib info w = GenerateKEMKeyPair lib [] w
   \<and> GenerateSignatureKeyPair lib info w = GenerateSignatureKeyPair lib [] w
   \<and> (fst (GenerateKEMKeyPair lib info w) = Inr kp \<longrightarrow>
        Get kp ''algorithm'' = Some (JString ''ML-KEM-768''))
   \<and> (fst (GenerateSignatureKeyPair lib info w) = Inr kp \<longrightarrow>
        Get kp ''algorithm'' = Some (JString ''ML-DSA-65''))
   \<and> snd (GetAvailableAlgorithms lib info w) = w
   \<and> (fst (GetAvailableAlgorithms lib info w) = Inr algs \<longrightarrow>
        listed algs ''kems''
          = {n. \<exists>i<OQS_KEM_algs_length lib. OQS_KEM_alg_identifier lib i = Some n}
        \<and> listed algs ''signatures''
          = {n. \<exists>i<OQS_SIG_algs_length lib. OQS_SIG_alg_identifier lib i = Some n})"
proof (intro conjI impI)
  show "GenerateKEMKeyPair lib info w = GenerateKEMKeyPair lib [] w"
    by (simp add: GenerateKEMKeyPair_def)
  show "GenerateSignatureKeyPair lib info w = GenerateSignatureKeyPair lib [] w"
    by (simp add: GenerateSignatureKeyPair_def)
  show "snd (GetAvailableAlgorithms lib info w) = w"
    by (simp add: GetAvailableAlgorithms_def Let_def)
next
  assume "fst (GenerateKEMKeyPair lib info w) = Inr kp"
  then show "Get kp ''algorithm'' = Some (JString ''ML-KEM-768'')"
    by (auto simp add: GenerateKEMKeyPair_def Let_def split: option.splits prod.splits if_splits)
next
  assume "fst (GenerateSignatureKeyPair lib info w) = Inr kp"
  then show "Get kp ''algorithm'' = Some (JString ''ML-DSA-65'')"
    by (auto simp add: GenerateSignatureKeyPair_def Let_def
        split: option.splits prod.splits if_splits)
next
  assume "fst (GetAvailableAlgorithms lib info w) = Inr algs"
  then have algs: "algs = JObject
      [(''kems'', JArray (algs_loop (OQS_KEM_alg_identifier lib) (OQS_KEM_algs_length lib) 0 [])),
       (''signatures'', JArray (algs_loop (OQS_SIG_alg_identifier lib) (OQS_SIG_algs_length lib) 0 []))]"
    by (auto simp add: GetAvailableAlgorithms_def Let_def)
  show "listed algs ''kems''
          = {n. \<exists>i<OQS_KEM_algs_length lib. OQS_KEM_alg_identifier lib i = Some n}"
    by (simp add: algs listed_def algs_loop_listed)
  show "listed algs ''signatures''
          = {n. \<exists>i<OQS_SIG_algs_length lib. OQS_SIG_alg_identifier lib i = Some n}"
    by (simp add: algs listed_def algs_loop_listed)
qed

theorem keygen_algorithm_is_fixed_witness:
  "fst (GenerateKEMKeyPair demo_liboqs [JString ''ML-KEM-1024''] 0) = Inr demo_kem_keypair
   \<and> Get demo_kem_keypair ''algorithm'' = Some (JString ''ML-KEM-768'')
   \<and> fst (GenerateSignatureKeyPair demo_liboqs [JString ''ML-DSA-44''] 0) = Inr demo_sig_keypair
   \<and> Get demo_sig_keypair ''algorithm'' = Some (JString ''ML-DSA-65'')
   \<and> fst (GetAvailableAlgorithms demo_liboqs [] 0) = Inr demo_algorithms
   \<and> listed demo_algorithms ''kems'' = {''ML-KEM-512'', ''ML-KEM-768'', ''ML-KEM-1024''}
   \<and> listed demo_algorithms ''signatures'' = {''ML-DSA-44'', ''ML-DSA-65''}"
proof -
  have a: "fst (GenerateKEMKeyPair demo_liboqs [JString ''ML-KEM-1024''] 0) = Inr demo_kem_keypair"
    by (simp add: demo_KEM_keygen)
  have b: "fst (GenerateSignatureKeyPair demo_liboqs [JString ''ML-DSA-44''] 0) = Inr demo_sig_keypair"
    by (simp add: demo_SIG_keygen)
  have c: "fst (GetAvailableAlgorithms demo_liboqs [] 0) = Inr demo_algorithms"
    by (simp add: demo_GetAvailableAlgorithms)
  have k: "{n. \<exists>i<OQS_KEM_algs_length demo_liboqs. OQS_KEM_alg_identifier demo_liboqs i = Some n}
           = {''ML-KEM-512'', ''ML-KEM-768'', ''ML-KEM-1024''}"
    by (auto simp add: demo_liboqs_def demo_alg_identifier_def ex_less_3)
  have g: "{n. \<exists>i<OQS_SIG_algs_length demo_liboqs. OQS_SIG_alg_identifier demo_liboqs i = Some n}
           = {''ML-DSA-44'', ''ML-DSA-65''}"
    by (auto simp add: demo_liboqs_def demo_alg_identifier_def ex_less_2)
  have "Get demo_kem_keypair ''algorithm'' = Some (JString ''ML-KEM-768'')"
    using keygen_algorithm_is_fixed [of demo_liboqs "[JString ''ML-KEM-1024'']" 0
        demo_kem_keypair demo_algorithms] a
    by blast
  moreover have "Get demo_sig_keypair ''algorithm'' = Some (JString ''ML-DSA-65'')"
    using keygen_algorithm_is_fixed [of demo_liboqs "[JString ''ML-DSA-44'']" 0
        demo_sig_keypair demo_algorithms] b
    by blast
  moreover have "listed demo_algorithms ''kems'' = {''ML-KEM-512'', ''ML-KEM-768'', ''ML-KEM-1024''}
      \<and> listed demo_algorithms ''signatures'' = {''ML-DSA-44'', ''ML-DSA-65''}"
    using keygen_algorithm_is_fixed [of demo_liboqs "[]" 0 demo_kem_keypair demo_algorithms] c
    unfolding k g by blast
  ultimately show ?thesis
    using a b c by blast
qed

section \<open>Verification in the Fixed Backend\<close>

text \<open>
  The Fixed Backend passes the primitive the signature buffer followed by the message
  buffer, in one array: the primitive cannot tell where the caller's signature ends. A
  byte moved from the end of the signature to the front of the message leaves the array,
  and so the primitive's result, unchanged. The Registry Backend passes the signature and
  its length separately.

  Claim C8. The two backends return the same boolean for every message, signature and
  public key. Below, \<open>S\<close> is the signature of the message \<open>[1, 2]\<close>; both backends are
  called with the first 3308 bytes of \<open>S\<close> as the signature and with the last byte of
  \<open>S\<close> followed by \<open>[1, 2]\<close> as the message. The Registry Backend returns
  \<open>false\<close>, the Fixed Backend returns \<open>true\<close>.
\<close>

theorem backends_disagree_on_shifted_signature:
  "fst (Direct_SignData demo_pqclean [JBuffer [1, 2], JBuffer (replicate 4000 7)] 0)
       = Inr (JBuffer (demo_signature [1, 2] (replicate 4000 7)))
   \<and> length (butlast (demo_signature [1, 2] (replicate 4000 7))) = 3308
   \<and> last (demo_signature [1, 2] (replicate 4000 7)) = 0
   \<and> fst (VerifySignature demo_liboqs
         [JBuffer [0, 1, 2], JBuffer (butlast (demo_signature [1, 2] (replicate 4000 7))),
          JBuffer (replicate 1952 7)] 0) = Inr (JBoolean False)
   \<and> fst (Direct_VerifySignature demo_pqclean
         [JBuffer [0, 1, 2], JBuffer (butlast (demo_signature [1, 2] (replicate 4000 7))),
          JBuffer (replicate 1952 7)] 0) = Inr (JBoolean True)"
proof -
  let ?S = "demo_signature [1, 2] (replicate 4000 7)"
  have sm: "butlast ?S @ [0, 1, 2] = ?S @ [1, 2]"
    using butlast_demo_signature_append [of "[1, 2]" "replicate 4000 7" "[1, 2]"]
    by (simp add: last_demo_signature)
  have "fst (VerifySignature demo_liboqs
         [JBuffer [0, 1, 2], JBuffer (butlast ?S), JBuffer (replicate 1952 7)] 0)
          = Inr (JBoolean False)"
    by (simp add: VerifySignature_buffers demo_SIG_new_65 demo_verify
        butlast_is_no_demo_signature)
  moreover have "fst (Direct_VerifySignature demo_pqclean
         [JBuffer [0, 1, 2], JBuffer (butlast ?S), JBuffer (replicate 1952 7)] 0)
          = Inr (JBoolean True)"
    by (simp add: Direct_VerifySignature_buffers demo_open sm demo_sign_open_signed
        demo_signature_eq demo_key_replicate)
  moreover have "length (butlast ?S) = 3308"
    by (rule length_butlast_demo_signature)
  moreover have "last ?S = 0"
    by (rule last_demo_signature)
  moreover have "fst (Direct_SignData demo_pqclean [JBuffer [1, 2], JBuffer (replicate 4000 7)] 0)
       = Inr (JBuffer ?S)"
    by (simp add: demo_Direct_sign)
  ultimately show ?thesis
    by blast
qed

theorem backends_disagree_on_shifted_signature_witness:
  "fst (VerifySignature demo_liboqs
         [JBuffer [0, 1, 2], JBuffer (butlast (demo_signature [1, 2] (replicate 4000 7))),
          JBuffer (replicate 1952 7)] 0)
   \<noteq> fst (Direct_VerifySignature demo_pqclean
         [JBuffer [0, 1, 2], JBuffer (butlast (demo_signature [1, 2] (replicate 4000 7))),
          JBuffer (replicate 1952 7)] 0)"
  using backends_disagree_on_shifted_signature by simp

text \<open>
  A signature buffer longer than 3309 bytes can carry the front of the message in the
  same way: the primitive accepts the array made of \<open>S\<close> followed by \<open>1\<close> and of
  the message \<open>[2]\<close>, and then writes the two-byte message it recovered into the
  one-byte \<open>recovered_message\<close>.
\<close>

lemma direct_verify_longer_signature_overruns:
  "PQCLEAN_MLDSA65_CLEAN_crypto_sign_open demo_pqclean
       ((demo_signature [1, 2] (replicate 4000 7) @ [1]) @ [2]) (replicate 1952 7)
     = (0, [1, 2], 2)
   \<and> fst (Direct_VerifySignature demo_pqclean
         [JBuffer [2], JBuffer (demo_signature [1, 2] (replicate 4000 7) @ [1]),
          JBuffer (replicate 1952 7)] 0) = Inl (BufferOverrun 1 2)"
  by (simp add: Direct_VerifySignature_buffers demo_open demo_sign_open_signed
      demo_signature_eq demo_key_replicate)

text \<open>
  Claim C10. Verification returns \<open>false\<close> for every signature buffer whose length is
  not the signature length. In the Fixed Backend, whenever a signature of 3309 bytes is
  accepted for a message \<open>m\<close>, its first 3308 bytes are accepted as a signature of the
  message made of its last byte followed by \<open>m\<close>.
\<close>

theorem direct_verify_accepts_shifted_signature:
  assumes "fst (Direct_VerifySignature p [JBuffer m, JBuffer (sg @ [a]), JBuffer pk] w)
             = Inr (JBoolean True)"
    and "length (sg @ [a]) = MLDSA65_SIGNATURE_BYTES"
  shows "fst (Direct_VerifySignature p [JBuffer (a # m), JBuffer sg, JBuffer pk] w)
             = Inr (JBoolean True)
         \<and> length sg \<noteq> MLDSA65_SIGNATURE_BYTES"
  using assms
  by (auto simp add: Direct_VerifySignature_buffers split: prod.splits if_splits)

theorem direct_verify_accepts_shifted_signature_witness:
  "fst (Direct_SignData demo_pqclean [JBuffer [1, 2], JBuffer (replicate 4000 7)] 0)
       = Inr (JBuffer (demo_signature [1, 2] (replicate 4000 7)))
   \<and> fst (Direct_VerifySignature demo_pqclean
         [JBuffer [1, 2], JBuffer (demo_signature [1, 2] (replicate 4000 7)),
          JBuffer (replicate 1952 7)] 1) = Inr (JBoolean True)
   \<and> length (demo_signature [1, 2] (replicate 4000 7)) = MLDSA65_SIGNATURE_BYTES
   \<and> fst (Direct_VerifySignature demo_pqclean
         [JBuffer (last (demo_signature [1, 2] (replicate 4000 7)) # [1, 2]),
          JBuffer (butlast (demo_signature [1, 2] (replicate 4000 7))),
          JBuffer (replicate 1952 7)] 1) = Inr (JBoolean True)
   \<and> length (butlast (demo_signature [1, 2] (replicate 4000 7))) = 3308"
proof -
  let ?S = "demo_signature [1, 2] (replicate 4000 7)"
  have S: "butlast ?S @ [last ?S] = ?S"
    by (rule append_butlast_last_id [OF demo_signature_not_Nil])
  have s: "fst (Direct_SignData demo_pqclean [JBuffer [1, 2], JBuffer (replicate 4000 7)] 0)
       = Inr (JBuffer ?S)"
    by (simp add: demo_Direct_sign)
  have v: "fst (Direct_VerifySignature demo_pqclean
         [JBuffer [1, 2], JBuffer ?S, JBuffer (replicate 1952 7)] 1) = Inr (JBoolean True)"
    by (simp add: Direct_VerifySignature_buffers demo_open demo_sign_open_signed
        demo_signature_eq demo_key_replicate)
  have l: "length ?S = MLDSA65_SIGNATURE_BYTES"
    by (simp add: length_demo_signature MLDSA65_SIGNATURE_BYTES_def)
  have v': "fst (Direct_VerifySignature demo_pqclean
         [JBuffer [1, 2], JBuffer (butlast ?S @ [last ?S]), JBuffer (replicate 1952 7)] 1)
          = Inr (JBoolean True)"
    using v by (simp only: S)
  have l': "length (butlast ?S @ [last ?S]) = MLDSA65_SIGNATURE_BYTES"
    using l by (simp only: S)
  have "fst (Direct_VerifySignature demo_pqclean
         [JBuffer (last ?S # [1, 2]), JBuffer (butlast ?S), JBuffer (replicate 1952 7)] 1)
          = Inr (JBoolean True)"
    using direct_verify_accepts_shifted_signature [OF v' l'] by (rule conjunct1)
  moreover have "length (butlast ?S) = 3308"
    by (rule length_butlast_demo_signature)
  ultimately show ?thesis
    using s v l by blast
qed

text \<open>
  Claim C3. For every message, signature buffer and public key of the declared 1952
  bytes, verification returns \<open>false\<close> when the signature does not match. In the Fixed
  Backend \<open>recovered_message\<close> has the length of the message, while the primitive is
  given the signature and the message together: as soon as the primitive writes as many
  bytes as its input has (what the PQClean function does when verification fails) and the
  signature buffer is not empty, the write runs past the end of the vector, and the call
  does not return \<open>false\<close>.
\<close>

theorem direct_verify_overruns_recovered_message:
  assumes "PQCLEAN_MLDSA65_CLEAN_crypto_sign_open p (s @ d) pk = (result, m_out, n)"
    and "length m_out = length (s @ d)"
    and "s \<noteq> []"
  shows "fst (Direct_VerifySignature p [JBuffer d, JBuffer s, JBuffer pk] w)
           = Inl (BufferOverrun (length d) (length s + length d))"
  using assms by (simp add: Direct_VerifySignature_buffers)

theorem direct_verify_overruns_recovered_message_witness:
  "PQCLEAN_MLDSA65_CLEAN_crypto_sign_open demo_pqclean
       (demo_signature [9] (replicate 4000 7) @ [1, 2]) (replicate 1952 7)
     = (- 1, replicate 3311 0, 2 ^ 64 - 1)
   \<and> length (replicate 3311 (0 :: byte)) = length (demo_signature [9] (replicate 4000 7) @ [1, 2])
   \<and> demo_signature [9] (replicate 4000 7) \<noteq> []
   \<and> length (replicate 1952 (7 :: byte)) = MLDSA65_PUBLICKEYBYTES
   \<and> fst (VerifySignature demo_liboqs
         [JBuffer [1, 2], JBuffer (demo_signature [9] (replicate 4000 7)),
          JBuffer (replicate 1952 7)] 0) = Inr (JBoolean False)
   \<and> fst (Direct_VerifySignature demo_pqclean
         [JBuffer [1, 2], JBuffer (demo_signature [9] (replicate 4000 7)),
          JBuffer (replicate 1952 7)] 0) = Inl (BufferOverrun 2 3311)"
proof -
  let ?s = "demo_signature [9] (replicate 4000 7)"
  have a: "PQCLEAN_MLDSA65_CLEAN_crypto_sign_open demo_pqclean (?s @ [1, 2]) (replicate 1952 7)
            = (- 1, replicate 3311 0, 2 ^ 64 - 1)"
    by (simp add: demo_open demo_sign_open_signed demo_signature_eq demo_key_replicate)
  have b: "length (replicate 3311 (0 :: byte)) = length (?s @ [1, 2])"
    by (simp add: length_demo_signature)
  have c: "?s \<noteq> []"
    by (rule demo_signature_not_Nil)
  have "fst (Direct_VerifySignature demo_pqclean
         [JBuffer [1, 2], JBuffer ?s, JBuffer (replicate 1952 7)] 0)
          = Inl (BufferOverrun 2 3311)"
    using direct_verify_overruns_recovered_message [OF a b c, of 0]
    by (simp add: length_demo_signature)
  moreover have "fst (VerifySignature demo_liboqs
         [JBuffer [1, 2], JBuffer ?s, JBuffer (replicate 1952 7)] 0) = Inr (JBoolean False)"
    by (simp add: VerifySignature_buffers demo_SIG_new_65 demo_verify demo_signature_eq
        demo_key_replicate)
  moreover have "length (replicate 1952 (7 :: byte)) = MLDSA65_PUBLICKEYBYTES"
    by (simp add: MLDSA65_PUBLICKEYBYTES_def)
  ultimately show ?thesis
    using a b c by blast
qed

end
